theory Spec2Isabelle
  imports Complex_Main
begin

section \<open>Strings and exceptions\<close>

text \<open>
  A Python \<open>str\<close> is modelled as the \<^typ>\<open>string\<close> of the bytes of its UTF-8 encoding, so
  that an ASCII character is one character of the model. The built-in \<open>str.lower\<close> is modelled
  on the ASCII letters; bytes from 128 on are left unchanged by it.
\<close>

definition lower_chr :: "char \<Rightarrow> char" where
  "lower_chr c =
     (let n = (of_char c :: nat) in if 65 \<le> n \<and> n \<le> 90 then char_of (n + 32) else c)"

definition lower :: "string \<Rightarrow> string" where
  "lower s = map lower_chr s"

text \<open>
  The exceptions of the two modules. \<open>Exception msg\<close> stands for any other subclass of
  Python's \<open>Exception\<close> raised by an external collaborator, with \<open>str(e) = msg\<close>.
\<close>

datatype exn = ValueError string | KeyError string | TypeError string | Exception string

section \<open>memory\_manager.py\<close>

subsection \<open>The memory objects of the external library\<close>

text \<open>
  \<open>_initialize_memory\<close> returns an object of one of the library's classes, built with keyword
  arguments. The object is modelled as the class, the keyword arguments passed (\<open>None\<close> for an
  argument that the call does not pass) and the conversation history it holds. Whether the
  library's constructor accepts the arguments is its own matter; a call is taken to return the
  object.
\<close>

datatype memory_class =
    ConversationBufferMemory
  | ConversationBufferWindowMemory
  | ConversationSummaryBufferMemory
  | ConversationTokenBufferMemory
  | ConversationKGMemory

datatype role = User | Assistant

record exchange =
  role :: role
  content :: string

record memory_object =
  cls :: memory_class
  window_k :: "int option"
  memory_key :: string
  return_messages :: "bool option"
  history :: "exchange list"

text \<open>
  The three methods of a memory object that \<open>MemoryManager\<close> calls. They belong to the external
  library, so the methods of \<open>MemoryManager\<close> take them as a parameter. A dictionary argument is
  an association list.
\<close>

record memory_library =
  save_context :: "memory_object \<Rightarrow> (string \<times> string) list \<Rightarrow> (string \<times> string) list \<Rightarrow> memory_object"
  load_memory_variables :: "memory_object \<Rightarrow> (string \<times> string) list \<Rightarrow> (string \<rightharpoonup> exchange list)"
  clear :: "memory_object \<Rightarrow> memory_object"

subsection \<open>MemoryManager\<close>

record MemoryManager =
  memory_type :: string
  window_size :: int
  token_limit :: int
  memory :: memory_object

text \<open>\<open>_initialize_memory(self, memory_type)\<close>; of \<open>self\<close> it reads \<open>window_size\<close> only.\<close>

definition initialize_memory :: "int \<Rightarrow> string \<Rightarrow> exn + memory_object" where
  "initialize_memory self_window_size mt =
     (if mt = ''buffer'' then
        Inr \<lparr>cls = ConversationBufferMemory, window_k = None,
             memory_key = ''chat_history'', return_messages = Some True, history = []\<rparr>
      else if mt = ''window'' then
        Inr \<lparr>cls = ConversationBufferWindowMemory, window_k = Some self_window_size,
             memory_key = ''chat_history'', return_messages = Some True, history = []\<rparr>
      else if mt = ''summary'' then
        Inr \<lparr>cls = ConversationBufferMemory, window_k = None,
             memory_key = ''chat_history'', return_messages = Some True, history = []\<rparr>
      else if mt = ''summary_buffer'' then
        Inr \<lparr>cls = ConversationSummaryBufferMemory, window_k = None,
             memory_key = ''chat_history'', return_messages = Some True, history = []\<rparr>
      else if mt = ''token_buffer'' then
        Inr \<lparr>cls = ConversationTokenBufferMemory, window_k = None,
             memory_key = ''chat_history'', return_messages = Some True, history = []\<rparr>
      else if mt = ''kg'' then
        Inr \<lparr>cls = ConversationKGMemory, window_k = None,
             memory_key = ''chat_history'', return_messages = None, history = []\<rparr>
      else Inl (ValueError (''Unsupported memory type: '' @ mt)))"

text \<open>\<open>MemoryManager.__init__\<close>: the instance, or the exception that leaves none.\<close>

definition MemoryManager_init :: "string \<Rightarrow> int \<Rightarrow> int \<Rightarrow> exn + MemoryManager" where
  "MemoryManager_init mt ws tlim =
     (let self_memory_type = lower mt in
      case initialize_memory ws self_memory_type of
        Inl e \<Rightarrow> Inl e
      | Inr m \<Rightarrow> Inr \<lparr>memory_type = self_memory_type, window_size = ws,
                      token_limit = tlim, memory = m\<rparr>)"

definition save_conversation ::
  "memory_library \<Rightarrow> MemoryManager \<Rightarrow> string \<Rightarrow> string \<Rightarrow> MemoryManager" where
  "save_conversation lib self user_input bot_output =
     self\<lparr>memory := save_context lib (memory self)
                        [(''input'', user_input)] [(''output'', bot_output)]\<rparr>"

definition get_chat_history :: "memory_library \<Rightarrow> MemoryManager \<Rightarrow> exchange list" where
  "get_chat_history lib self =
     (case load_memory_variables lib (memory self) [] ''chat_history'' of
        Some v \<Rightarrow> v
      | None \<Rightarrow> [])"

definition clear_memory :: "memory_library \<Rightarrow> MemoryManager \<Rightarrow> MemoryManager" where
  "clear_memory lib self = self\<lparr>memory := clear lib (memory self)\<rparr>"

text \<open>The strategy names of the docstring of \<open>__init__\<close>.\<close>

definition memory_types :: "string list" where
  "memory_types = [''buffer'', ''window'', ''summary'', ''summary_buffer'', ''token_buffer'', ''kg'']"

subsection \<open>The library as the specification describes it\<close>

text \<open>
  Modelled from the spec: the memory classes of the external library (\<open>langchain.memory\<close>),
  whose code is not under \<open>src/\<close>. The specification, sections 3 and 4.3: an Exchange is a
  role and a content; \<open>record\<close> appends one Exchange pair, the user's then the assistant's;
  the history is all turns for the full buffer and the last \<open>k\<close> turns for the window; the
  reduction of the other strategies is delegated to the library and is the parameter
  \<open>reduce\<close> here; \<open>reset\<close> discards all history. The history is returned under the object's
  memory key.
\<close>

definition exchange_pair :: "string \<Rightarrow> string \<Rightarrow> exchange list" where
  "exchange_pair user_input assistant_output =
     [\<lparr>role = User, content = user_input\<rparr>, \<lparr>role = Assistant, content = assistant_output\<rparr>]"

definition last_turns :: "int \<Rightarrow> exchange list \<Rightarrow> exchange list" where
  "last_turns k h = drop (length h - 2 * nat k) h"

definition single_value :: "(string \<times> string) list \<Rightarrow> string" where
  "single_value d = (case d of [(key, v)] \<Rightarrow> v | _ \<Rightarrow> [])"

definition spec_save_context ::
  "(memory_object \<Rightarrow> string \<Rightarrow> string \<Rightarrow> exchange list) \<Rightarrow>
   memory_object \<Rightarrow> (string \<times> string) list \<Rightarrow> (string \<times> string) list \<Rightarrow> memory_object" where
  "spec_save_context reduce m inputs outputs =
     (let u = single_value inputs; a = single_value outputs;
          h = history m @ exchange_pair u a
      in m\<lparr>history :=
             (case cls m of
                ConversationBufferMemory \<Rightarrow> h
              | ConversationBufferWindowMemory \<Rightarrow>
                  (case window_k m of Some k \<Rightarrow> last_turns k h | None \<Rightarrow> h)
              | _ \<Rightarrow> reduce m u a)\<rparr>)"

definition spec_load_memory_variables ::
  "memory_object \<Rightarrow> (string \<times> string) list \<Rightarrow> (string \<rightharpoonup> exchange list)" where
  "spec_load_memory_variables m inputs = [memory_key m \<mapsto> history m]"

definition spec_clear :: "memory_object \<Rightarrow> memory_object" where
  "spec_clear m = m\<lparr>history := []\<rparr>"

definition spec_library ::
  "(memory_object \<Rightarrow> string \<Rightarrow> string \<Rightarrow> exchange list) \<Rightarrow> memory_library" where
  "spec_library reduce =
     \<lparr>save_context = spec_save_context reduce,
      load_memory_variables = spec_load_memory_variables,
      clear = spec_clear\<rparr>"

subsection \<open>Callers\<close>

text \<open>
  A caller of a \<open>MemoryManager\<close> makes a sequence of calls of \<open>save_conversation\<close> and
  \<open>clear_memory\<close>, as \<open>memory_test.py\<close> does.
\<close>

datatype call = Save string string | Clear

fun run :: "memory_library \<Rightarrow> MemoryManager \<Rightarrow> call list \<Rightarrow> MemoryManager" where
  "run lib self [] = self"
| "run lib self (Save user_input bot_output # cs) =
     run lib (save_conversation lib self user_input bot_output) cs"
| "run lib self (Clear # cs) = run lib (clear_memory lib self) cs"

fun save_all :: "memory_library \<Rightarrow> MemoryManager \<Rightarrow> (string \<times> string) list \<Rightarrow> MemoryManager" where
  "save_all lib self [] = self"
| "save_all lib self ((user_input, bot_output) # turns) =
     save_all lib (save_conversation lib self user_input bot_output) turns"

text \<open>The exchanges of a sequence of recorded turns, in order.\<close>

definition turn_exchanges :: "(string \<times> string) list \<Rightarrow> exchange list" where
  "turn_exchanges turns = concat (map (\<lambda>(u, a). exchange_pair u a) turns)"

text \<open>A reduction for the delegated strategies that keeps every exchange.\<close>

definition keep_all :: "memory_object \<Rightarrow> string \<Rightarrow> string \<Rightarrow> exchange list" where
  "keep_all m u a = history m @ exchange_pair u a"

text \<open>The two turns that \<open>memory_test.py\<close> saves.\<close>

definition test_turns :: "(string \<times> string) list" where
  "test_turns = [(''Hello'', ''Hi there!''),
                 (''What is AI?'', ''AI means Artificial Intelligence.'')]"

section \<open>Rag\_democode.py\<close>

subsection \<open>Values\<close>

text \<open>
  The values that travel between the script and its collaborators are JSON values. A dictionary
  is an association list in insertion order; its keys are distinct, as in Python. A float is
  a real number.
\<close>

datatype jvalue =
    JNull
  | JBool bool
  | JInt int
  | JFloat real
  | JStr string
  | JList "jvalue list"
  | JDict "(string \<times> jvalue) list"

definition quoted :: "string \<Rightarrow> string" where
  "quoted s = [CHR 0x27] @ s @ [CHR 0x27]"

text \<open>\<open>str(e)\<close>; for a \<open>KeyError\<close> it is the \<open>repr\<close> of the key.\<close>

fun str_exn :: "exn \<Rightarrow> string" where
  "str_exn (ValueError msg) = msg"
| "str_exn (KeyError key) = quoted key"
| "str_exn (TypeError msg) = msg"
| "str_exn (Exception msg) = msg"

text \<open>\<open>obj[key]\<close> with a string key.\<close>

fun getitem :: "jvalue \<Rightarrow> string \<Rightarrow> exn + jvalue" where
  "getitem (JDict d) key = (case map_of d key of Some v \<Rightarrow> Inr v | None \<Rightarrow> Inl (KeyError key))"
| "getitem (JList xs) key = Inl (TypeError ''list indices must be integers or slices, not str'')"
| "getitem (JStr s) key = Inl (TypeError ''string indices must be integers'')"
| "getitem JNull key = Inl (TypeError (quoted ''NoneType'' @ '' object is not subscriptable''))"
| "getitem (JBool b) key = Inl (TypeError (quoted ''bool'' @ '' object is not subscriptable''))"
| "getitem (JInt i) key = Inl (TypeError (quoted ''int'' @ '' object is not subscriptable''))"
| "getitem (JFloat r) key = Inl (TypeError (quoted ''float'' @ '' object is not subscriptable''))"

text \<open>
  The elements that \<open>for doc in obj\<close> visits. A string gives its characters, here one per
  byte; each is a string, on which the subscripts of step 2 raise.
\<close>

fun py_iter :: "jvalue \<Rightarrow> exn + jvalue list" where
  "py_iter (JList xs) = Inr xs"
| "py_iter (JDict d) = Inr (map (\<lambda>kv. JStr (fst kv)) d)"
| "py_iter (JStr s) = Inr (map (\<lambda>c. JStr [c]) s)"
| "py_iter JNull = Inl (TypeError (quoted ''NoneType'' @ '' object is not iterable''))"
| "py_iter (JBool b) = Inl (TypeError (quoted ''bool'' @ '' object is not iterable''))"
| "py_iter (JInt i) = Inl (TypeError (quoted ''int'' @ '' object is not iterable''))"
| "py_iter (JFloat r) = Inl (TypeError (quoted ''float'' @ '' object is not iterable''))"

text \<open>
  \<open>str.strip()\<close> removes white space at both ends. Python's white-space characters are the
  twenty-nine code points U+0009 to U+000D, U+001C to U+0020, U+0085, U+00A0, U+1680, U+2000 to
  U+200A, U+2028, U+2029, U+202F, U+205F and U+3000; \<open>whitespace\<close> lists their UTF-8
  encodings. \<open>lstrip seqs s\<close> removes from the front of \<open>s\<close>, as long as there is one, a
  sequence of \<open>seqs\<close>.
\<close>

definition whitespace :: "string list" where
  "whitespace =
     [[CHR 0x09], [CHR 0x0A], [CHR 0x0B], [CHR 0x0C], [CHR 0x0D],
      [CHR 0x1C], [CHR 0x1D], [CHR 0x1E], [CHR 0x1F], [CHR 0x20],
      [CHR 0xC2, CHR 0x85], [CHR 0xC2, CHR 0xA0],
      [CHR 0xE1, CHR 0x9A, CHR 0x80],
      [CHR 0xE2, CHR 0x80, CHR 0x80], [CHR 0xE2, CHR 0x80, CHR 0x81],
      [CHR 0xE2, CHR 0x80, CHR 0x82], [CHR 0xE2, CHR 0x80, CHR 0x83],
      [CHR 0xE2, CHR 0x80, CHR 0x84], [CHR 0xE2, CHR 0x80, CHR 0x85],
      [CHR 0xE2, CHR 0x80, CHR 0x86], [CHR 0xE2, CHR 0x80, CHR 0x87],
      [CHR 0xE2, CHR 0x80, CHR 0x88], [CHR 0xE2, CHR 0x80, CHR 0x89],
      [CHR 0xE2, CHR 0x80, CHR 0x8A],
      [CHR 0xE2, CHR 0x80, CHR 0xA8], [CHR 0xE2, CHR 0x80, CHR 0xA9],
      [CHR 0xE2, CHR 0x80, CHR 0xAF], [CHR 0xE2, CHR 0x81, CHR 0x9F],
      [CHR 0xE3, CHR 0x80, CHR 0x80]]"

function lstrip :: "string list \<Rightarrow> string \<Rightarrow> string" where
  "lstrip seqs s =
     (case find (\<lambda>w. w \<noteq> [] \<and> take (length w) s = w) seqs of
        None \<Rightarrow> s
      | Some w \<Rightarrow> lstrip seqs (drop (length w) s))"
  by pat_completeness auto
termination
proof (relation "measure (\<lambda>(seqs, s). length s)")
  show "wf (measure (\<lambda>(seqs, s). length s))" by simp
next
  fix seqs :: "string list" and s w :: string
  assume "find (\<lambda>w. w \<noteq> [] \<and> take (length w) s = w) seqs = Some w"
  then have w: "w \<noteq> []" and t: "take (length w) s = w"
    by (auto simp: find_Some_iff)
  from t have "length w \<le> length s"
    by (metis length_take min.cobounded1)
  with w show "((seqs, drop (length w) s), (seqs, s)) \<in> measure (\<lambda>(seqs, s). length s)"
    by (cases w) auto
qed

declare lstrip.simps [simp del]

definition strip :: "string \<Rightarrow> string" where
  "strip s = rev (lstrip (map rev whitespace) (rev (lstrip whitespace s)))"

text \<open>A text made of white-space characters only: the empty text included.\<close>

definition whitespace_only :: "string list \<Rightarrow> bool" where
  "whitespace_only ws = list_all (\<lambda>w. w \<in> set whitespace) ws"

subsection \<open>Collaborators\<close>

text \<open>
  The search service, the hosted model and the \<open>json\<close> module are external. \<open>requests_get\<close>
  is \<open>requests.get(url, json=..., auth=...)\<close> followed by \<open>res.json()\<close>: the decoded
  response, or the exception that either raises. \<open>invoke_model\<close> is
  \<open>bedrock.invoke_model(...)\<close> followed by \<open>json.loads(response["body"].read())\<close>.
  \<open>json_dumps indent v\<close> is \<open>json.dumps(v, indent=indent)\<close>.
\<close>

record http_request =
  url :: string
  json :: jvalue
  auth :: "string \<times> string"

record invoke_request =
  modelId :: string
  body :: string
  contentType :: string

record world =
  requests_get :: "http_request \<Rightarrow> exn + jvalue"
  invoke_model :: "invoke_request \<Rightarrow> exn + jvalue"
  json_dumps :: "nat option \<Rightarrow> jvalue \<Rightarrow> string"

text \<open>The calls made to the collaborators, in order.\<close>

datatype event = Encode string | RequestsGet http_request | InvokeModel invoke_request

fun is_RequestsGet :: "event \<Rightarrow> bool" where
  "is_RequestsGet (RequestsGet r) = True"
| "is_RequestsGet _ = False"

fun is_InvokeModel :: "event \<Rightarrow> bool" where
  "is_InvokeModel (InvokeModel r) = True"
| "is_InvokeModel _ = False"

subsection \<open>RetrievalModel\<close>

definition OPENSEARCH_URL :: string where
  "OPENSEARCH_URL = ''http://localhost:9200''"

definition INDEX_NAME :: string where
  "INDEX_NAME = ''rag-index''"

text \<open>\<open>embedder\<close> is \<open>self.embedder.encode(text).tolist()\<close>, a function of the text.\<close>

record RetrievalModel =
  embedder :: "string \<Rightarrow> real list"
  index_name :: string
  opensearch_url :: string

definition embed_text :: "RetrievalModel \<Rightarrow> string \<Rightarrow> event list \<times> real list" where
  "embed_text self text = ([Encode text], embedder self text)"

definition retrieve ::
  "world \<Rightarrow> RetrievalModel \<Rightarrow> string \<Rightarrow> int \<Rightarrow> event list \<times> (exn + jvalue)" where
  "retrieve w self query top_k =
     (let (t1, query_emb) = embed_text self query;
          search_query =
            JDict [(''size'', JInt top_k),
                   (''query'', JDict [(''knn'', JDict [(''embedding'',
                      JDict [(''vector'', JList (map JFloat query_emb)),
                             (''k'', JInt top_k)])])])];
          req = \<lparr>url = opensearch_url self @ ''/'' @ index_name self @ ''/_search'',
                 json = search_query, auth = (''admin'', ''admin'')\<rparr>
      in (t1 @ [RequestsGet req],
          case requests_get w req of
            Inl e \<Rightarrow> Inl e
          | Inr res_json \<Rightarrow>
              (case getitem res_json ''hits'' of
                 Inl e \<Rightarrow> Inl e
               | Inr h \<Rightarrow> getitem h ''hits'')))"

subsection \<open>query\_bedrock\<close>

definition query_bedrock :: "world \<Rightarrow> string \<Rightarrow> event list \<times> (exn + jvalue)" where
  "query_bedrock w prompt =
     (let req = \<lparr>modelId = ''anthropic.claude-v2'',
                 body = json_dumps w None
                          (JDict [(''prompt'', JStr prompt),
                                  (''max_tokens_to_sample'', JInt 300),
                                  (''temperature'', JFloat (2 / 10))]),
                 contentType = ''application/json''\<rparr>
      in ([InvokeModel req],
          case invoke_model w req of
            Inl e \<Rightarrow> Inl e
          | Inr response \<Rightarrow> getitem response ''completion''))"

subsection \<open>The main flow\<close>

definition retriever :: "(string \<Rightarrow> real list) \<Rightarrow> RetrievalModel" where
  "retriever emb = \<lparr>embedder = emb, index_name = INDEX_NAME, opensearch_url = OPENSEARCH_URL\<rparr>"

text \<open>The \<open>disabled\<close> argument of the Send button.\<close>

definition send_disabled :: "string \<Rightarrow> bool" where
  "send_disabled user_text = (\<not> (strip user_text \<noteq> []))"

text \<open>One entry of the list comprehension of step 2.\<close>

definition context_entry :: "jvalue \<Rightarrow> exn + jvalue" where
  "context_entry doc =
     (case getitem doc ''_id'' of Inl e \<Rightarrow> Inl e | Inr doc_id \<Rightarrow>
      case getitem doc ''_score'' of Inl e \<Rightarrow> Inl e | Inr score \<Rightarrow>
      case getitem doc ''_source'' of Inl e \<Rightarrow> Inl e | Inr source \<Rightarrow>
      case getitem source ''content'' of Inl e \<Rightarrow> Inl e | Inr c \<Rightarrow>
        Inr (JDict [(''id'', doc_id), (''score'', score), (''content'', c)]))"

fun context_entries :: "jvalue list \<Rightarrow> exn + jvalue list" where
  "context_entries [] = Inr []"
| "context_entries (doc # docs) =
     (case context_entry doc of Inl e \<Rightarrow> Inl e | Inr x \<Rightarrow>
      case context_entries docs of Inl e \<Rightarrow> Inl e | Inr xs \<Rightarrow> Inr (x # xs))"

text \<open>
  The prompt of step 3. A line break is the character 10; the apostrophe of the third line
  is not ASCII and appears as its three UTF-8 bytes.
\<close>

definition build_prompt :: "string \<Rightarrow> string \<Rightarrow> string" where
  "build_prompt context_json question =
     ''You are a helpful assistant.'' @ [CHR 0x0A] @
     ''I will give you JSON search results from OpenSearch.'' @ [CHR 0x0A] @
     ''Use them to answer the user'' @ [CHR 0xE2, CHR 0x80, CHR 0x99] @
     ''s question clearly and concisely.'' @ [CHR 0x0A] @
     ''If the information is not available, say so.'' @ [CHR 0x0A] @ [CHR 0x0A] @
     ''Search Results (JSON):'' @ [CHR 0x0A] @
     context_json @ [CHR 0x0A] @ [CHR 0x0A] @
     ''Question: '' @ question @ [CHR 0x0A] @
     ''Answer:''"

text \<open>The body of the \<open>try\<close> statement: steps 1 to 4, up to the answer or the exception.\<close>

definition try_block ::
  "world \<Rightarrow> (string \<Rightarrow> real list) \<Rightarrow> string \<Rightarrow> event list \<times> (exn + jvalue)" where
  "try_block w emb question =
     (let (t1, r1) = retrieve w (retriever emb) question 3 in
      case r1 of
        Inl e \<Rightarrow> (t1, Inl e)
      | Inr retrieved_docs \<Rightarrow>
          (case py_iter retrieved_docs of
             Inl e \<Rightarrow> (t1, Inl e)
           | Inr docs \<Rightarrow>
               (case context_entries docs of
                  Inl e \<Rightarrow> (t1, Inl e)
                | Inr entries \<Rightarrow>
                    (let context_json = json_dumps w (Some 2) (JList entries);
                         prompt = build_prompt context_json question;
                         (t2, r2) = query_bedrock w prompt
                     in (t1 @ t2, r2)))))"

text \<open>
  The block \<open>if send_clicked and user_text.strip():\<close> up to \<open>st.rerun()\<close>, which ends the
  script run. It takes and returns \<open>st.session_state.messages\<close>.
\<close>

definition message :: "string \<Rightarrow> jvalue \<Rightarrow> jvalue" where
  "message r c = JDict [(''role'', JStr r), (''content'', c)]"

definition main_flow ::
  "world \<Rightarrow> (string \<Rightarrow> real list) \<Rightarrow> bool \<Rightarrow> string \<Rightarrow> jvalue list \<Rightarrow> event list \<times> jvalue list" where
  "main_flow w emb send_clicked user_text messages =
     (if send_clicked \<and> strip user_text \<noteq> [] then
        (let messages1 = messages @ [message ''user'' (JStr (strip user_text))];
             (t, r) = try_block w emb (strip user_text)
         in (t, case r of
                  Inr answer \<Rightarrow> messages1 @ [message ''assistant'' answer]
                | Inl e \<Rightarrow> messages1 @ [message ''assistant'' (JStr (''Error: '' @ str_exn e))]))
      else ([], messages))"

subsection \<open>The claimed shape of a retrieval result, and sample collaborators\<close>

text \<open>The relevance score of a hit, when it has a numeric one.\<close>

fun number_of :: "jvalue \<Rightarrow> real option" where
  "number_of (JInt i) = Some (of_int i)"
| "number_of (JFloat r) = Some r"
| "number_of _ = None"

definition relevance_score :: "jvalue \<Rightarrow> real option" where
  "relevance_score hit = (case getitem hit ''_score'' of Inr v \<Rightarrow> number_of v | Inl e \<Rightarrow> None)"

definition is_retrieval_result :: "int \<Rightarrow> jvalue \<Rightarrow> bool" where
  "is_retrieval_result top_k v =
     (case v of
        JList hits \<Rightarrow>
          int (length hits) \<le> top_k \<and>
          list_all (\<lambda>h. relevance_score h \<noteq> None) hits \<and>
          sorted_wrt (\<lambda>a b. the (relevance_score a) \<ge> the (relevance_score b)) hits
      | _ \<Rightarrow> False)"

definition spec_search_body :: "int \<Rightarrow> real list \<Rightarrow> jvalue" where
  "spec_search_body top_k vector =
     JDict [(''size'', JInt top_k),
            (''query'', JDict [(''knn'', JDict [(''embedding'',
               JDict [(''vector'', JList (map JFloat vector)), (''k'', JInt top_k)])])])]"

definition hits_of :: "jvalue \<Rightarrow> exn + jvalue" where
  "hits_of response =
     (case getitem response ''hits'' of Inl e \<Rightarrow> Inl e | Inr h \<Rightarrow> getitem h ''hits'')"

definition hit :: "string \<Rightarrow> real \<Rightarrow> string \<Rightarrow> jvalue" where
  "hit doc_id score text =
     JDict [(''_id'', JStr doc_id), (''_score'', JFloat score),
            (''_source'', JDict [(''content'', JStr text)])]"

definition zero_embedder :: "string \<Rightarrow> real list" where
  "zero_embedder text = [0, 0]"

definition answering :: "invoke_request \<Rightarrow> exn + jvalue" where
  "answering req = Inr (JDict [(''completion'', JStr ''AI means...'')])"

definition plain_dumps :: "nat option \<Rightarrow> jvalue \<Rightarrow> string" where
  "plain_dumps indent v = ''[]''"

text \<open>
  Modelled from the spec: the contract of the vector search collaborator, whose code is not
  under \<open>src/\<close>. The specification, sections 3, 4.1 and 6: asked for the \<open>size\<close> nearest
  neighbours, the service answers with, under \<open>hits.hits\<close>, at most \<open>size\<close> hits, each with
  a score, in descending order of score. \<open>honours req response\<close> says that a response keeps
  that contract for its request.
\<close>

definition honours :: "http_request \<Rightarrow> jvalue \<Rightarrow> bool" where
  "honours req response =
     (case getitem (json req) ''size'' of
        Inr (JInt n) \<Rightarrow>
          (case hits_of response of
             Inr hits \<Rightarrow> is_retrieval_result n hits
           | Inl e \<Rightarrow> False)
      | _ \<Rightarrow> False)"

text \<open>
  A service of that kind, over an index whose hits are ranked already: it answers with the
  first \<open>size\<close> of them.
\<close>

definition knn_service :: "jvalue list \<Rightarrow> http_request \<Rightarrow> exn + jvalue" where
  "knn_service ranked req =
     (case getitem (json req) ''size'' of
        Inr (JInt n) \<Rightarrow>
          (if 0 \<le> n
           then Inr (JDict [(''hits'', JDict [(''hits'', JList (take (nat n) ranked))])])
           else Inl (Exception ''size must not be negative''))
      | _ \<Rightarrow> Inl (Exception ''size is missing''))"

definition ranked_hits :: "jvalue list" where
  "ranked_hits = [hit ''d2'' 2 ''ML is...'', hit ''d1'' 1 ''AI is...'']"

definition honest_world :: world where
  "honest_world =
     \<lparr>requests_get = knn_service ranked_hits, invoke_model = answering,
      json_dumps = plain_dumps\<rparr>"

definition refusing :: "http_request \<Rightarrow> exn + jvalue" where
  "refusing req = Inl (Exception ''Connection refused'')"

definition down_world :: world where
  "down_world =
     \<lparr>requests_get = refusing, invoke_model = answering, json_dumps = plain_dumps\<rparr>"

section \<open>Construction\<close>

lemma lower_chr_idem: "lower_chr (lower_chr c) = lower_chr c"
  by (simp add: lower_chr_def Let_def)

lemma lower_idem: "lower (lower s) = lower s"
  by (simp add: lower_def lower_chr_idem)

lemma initialize_memory_unsupported:
  "mt \<notin> set memory_types \<Longrightarrow>
   initialize_memory ws mt = Inl (ValueError (''Unsupported memory type: '' @ mt))"
  by (simp add: initialize_memory_def memory_types_def)

text \<open>
  C1. A strategy name that, lowercased, is none of \<open>buffer\<close>, \<open>window\<close>, \<open>summary\<close>,
  \<open>summary_buffer\<close>, \<open>token_buffer\<close>, \<open>kg\<close> makes the construction of a \<open>MemoryManager\<close> fail
  with the \<open>ValueError\<close> "Unsupported memory type: ..." and yields no instance.
\<close>

theorem unsupported_strategy_fails:
  assumes "lower s \<notin> set memory_types"
  shows "MemoryManager_init s ws tlim = Inl (ValueError (''Unsupported memory type: '' @ lower s))"
  using initialize_memory_unsupported [OF assms, of ws]
  by (simp add: MemoryManager_init_def)

theorem unsupported_strategy_fails_witness:
  "lower ''Invalid'' \<notin> set memory_types \<and>
   MemoryManager_init ''Invalid'' 3 1000 = Inl (ValueError ''Unsupported memory type: invalid'')"
proof -
  have l: "lower ''Invalid'' = ''invalid''"
    by code_simp
  have h: "lower ''Invalid'' \<notin> set memory_types"
    by (simp add: l memory_types_def)
  from unsupported_strategy_fails [OF h, of 3 1000] h l show ?thesis
    by simp
qed

text \<open>
  C10. Construction is case-insensitive in the strategy name: a name and its lowercased form
  give the same result, the same exception or the same instance.
\<close>

theorem construction_case_insensitive:
  "MemoryManager_init s ws tlim = MemoryManager_init (lower s) ws tlim"
  by (simp add: MemoryManager_init_def lower_idem)

section \<open>Recording, history and reset\<close>

lemma lower_summary: "lower ''summary'' = ''summary''" by code_simp
lemma lower_buffer: "lower ''buffer'' = ''buffer''" by code_simp
lemma lower_window: "lower ''window'' = ''window''" by code_simp

lemma run_memory_cong:
  "memory a = memory b \<Longrightarrow> memory (run lib a cs) = memory (run lib b cs)"
proof (induction cs arbitrary: a b)
  case Nil
  then show ?case by simp
next
  case (Cons c cs)
  show ?case
  proof (cases c)
    case (Save u v)
    have "memory (save_conversation lib a u v) = memory (save_conversation lib b u v)"
      using Cons.prems by (simp add: save_conversation_def)
    from Cons.IH [OF this] Save show ?thesis by simp
  next
    case Clear
    have "memory (clear_memory lib a) = memory (clear_memory lib b)"
      using Cons.prems by (simp add: clear_memory_def)
    from Cons.IH [OF this] Clear show ?thesis by simp
  qed
qed

text \<open>
  C2. The strategy \<open>summary\<close> is not rejected: it yields the same memory object as
  \<open>buffer\<close>, a \<open>ConversationBufferMemory\<close> with the same arguments, and so, whatever the
  library does, the same history after any sequence of calls.
\<close>

theorem summary_is_full_buffer:
  "\<exists>a b. MemoryManager_init ''summary'' ws tlim = Inr a \<and>
         MemoryManager_init ''buffer'' ws tlim = Inr b \<and>
         memory a = memory b \<and> cls (memory a) = ConversationBufferMemory \<and>
         (\<forall>lib cs. get_chat_history lib (run lib a cs) = get_chat_history lib (run lib b cs))"
proof -
  let ?m = "\<lparr>cls = ConversationBufferMemory, window_k = None,
             memory_key = ''chat_history'', return_messages = Some True, history = []\<rparr>"
  let ?a = "\<lparr>memory_type = ''summary'', window_size = ws, token_limit = tlim, memory = ?m\<rparr>"
  let ?b = "\<lparr>memory_type = ''buffer'', window_size = ws, token_limit = tlim, memory = ?m\<rparr>"
  have a: "MemoryManager_init ''summary'' ws tlim = Inr ?a"
    by (simp add: MemoryManager_init_def lower_summary initialize_memory_def)
  have b: "MemoryManager_init ''buffer'' ws tlim = Inr ?b"
    by (simp add: MemoryManager_init_def lower_buffer initialize_memory_def)
  have "memory ?a = memory ?b" by simp
  then have "\<forall>lib cs. get_chat_history lib (run lib ?a cs) = get_chat_history lib (run lib ?b cs)"
    using run_memory_cong [of ?a ?b] by (simp add: get_chat_history_def)
  with a b show ?thesis by simp
qed

lemma last_turns_append_pair:
  assumes "1 \<le> k"
  shows "last_turns k (h @ exchange_pair u a) =
         drop (length h + 2 - 2 * nat k) h @ exchange_pair u a"
proof -
  have "length h + 2 - 2 * nat k \<le> length h"
    using assms by simp
  then show ?thesis
    by (simp add: last_turns_def exchange_pair_def)
qed

text \<open>
  C7. Whatever the strategy and the state, \<open>clear_memory\<close> followed by
  \<open>get_chat_history\<close> returns the empty sequence.
\<close>

theorem clear_then_history_empty:
  "get_chat_history (spec_library reduce) (clear_memory (spec_library reduce) self) = []"
  by (simp add: get_chat_history_def clear_memory_def spec_library_def spec_clear_def
      spec_load_memory_variables_def)

lemma drop_append_full:
  "length A = n \<Longrightarrow>
   drop (length (A @ ys) - n) (A @ ys) = drop (length ys) A @ drop (length ys - n) ys"
  by simp

lemma last_turns_last_turns:
  "last_turns k (last_turns k xs @ ys) = last_turns k (xs @ ys)"
proof (cases "length xs \<le> 2 * nat k")
  case True
  then show ?thesis by (simp add: last_turns_def)
next
  case False
  define n where "n = 2 * nat k"
  define d where "d = length xs - n"
  from False have len: "length xs = d + n"
    by (simp add: n_def d_def)
  have l: "length (drop d xs) = n"
    by (simp add: len)
  have e1: "length (xs @ ys) - n = length ys + d"
    by (simp add: len)
  have e2: "length ys + d - length xs = length ys - n"
    by (simp add: len)
  have "drop (length (drop d xs @ ys) - n) (drop d xs @ ys)
        = drop (length ys) (drop d xs) @ drop (length ys - n) ys"
    by (rule drop_append_full [OF l])
  also have "drop (length ys) (drop d xs) = drop (length ys + d) xs"
    by (rule drop_drop)
  also have "drop (length ys + d) xs @ drop (length ys - n) ys
             = drop (length (xs @ ys) - n) (xs @ ys)"
    unfolding e1 drop_append e2 ..
  finally show ?thesis
    by (simp only: last_turns_def n_def [symmetric] d_def [symmetric])
qed

lemma save_all_window:
  assumes "cls (memory self) = ConversationBufferWindowMemory"
      and "window_k (memory self) = Some k"
  shows "history (memory (save_all (spec_library reduce) self turns)) =
         (if turns = [] then history (memory self)
          else last_turns k (history (memory self) @ turn_exchanges turns))"
  using assms
proof (induction turns arbitrary: self)
  case Nil
  then show ?case by simp
next
  case (Cons t turns)
  obtain u a where t: "t = (u, a)" by (cases t)
  let ?s = "save_conversation (spec_library reduce) self u a"
  have c: "cls (memory ?s) = ConversationBufferWindowMemory"
    and w: "window_k (memory ?s) = Some k"
    and h: "history (memory ?s) = last_turns k (history (memory self) @ exchange_pair u a)"
    using Cons.prems
    by (simp_all add: save_conversation_def spec_library_def spec_save_context_def
        single_value_def Let_def)
  from Cons.IH [OF c w] show ?case
    by (simp add: t h last_turns_last_turns turn_exchanges_def)
qed

lemma drop_turn_exchanges:
  "drop (2 * n) (turn_exchanges turns) = turn_exchanges (drop n turns)"
  apply (induction turns arbitrary: n)
   apply (simp add: turn_exchanges_def)
  subgoal for t turns n
    apply (cases n)
    apply (auto simp: turn_exchanges_def exchange_pair_def split: prod.splits)
    done
  done

lemma length_turn_exchanges: "length (turn_exchanges turns) = 2 * length turns"
  by (induction turns) (auto simp: turn_exchanges_def exchange_pair_def)

lemma spec_save_config:
  "cls (memory (save_conversation (spec_library reduce) self u a)) = cls (memory self) \<and>
   window_k (memory (save_conversation (spec_library reduce) self u a)) = window_k (memory self) \<and>
   memory_key (memory (save_conversation (spec_library reduce) self u a)) = memory_key (memory self)"
  by (simp add: save_conversation_def spec_library_def spec_save_context_def Let_def)

lemma spec_clear_config:
  "cls (memory (clear_memory (spec_library reduce) self)) = cls (memory self) \<and>
   window_k (memory (clear_memory (spec_library reduce) self)) = window_k (memory self) \<and>
   memory_key (memory (clear_memory (spec_library reduce) self)) = memory_key (memory self)"
  by (simp add: clear_memory_def spec_library_def spec_clear_def)

lemma run_config:
  "cls (memory (run (spec_library reduce) self cs)) = cls (memory self) \<and>
   window_k (memory (run (spec_library reduce) self cs)) = window_k (memory self) \<and>
   memory_key (memory (run (spec_library reduce) self cs)) = memory_key (memory self)"
proof (induction cs arbitrary: self)
  case Nil
  show ?case by simp
next
  case (Cons c cs)
  show ?case
  proof (cases c)
    case (Save u a)
    with Cons [of "save_conversation (spec_library reduce) self u a"] spec_save_config [of reduce self u a]
    show ?thesis by simp
  next
    case Clear
    with Cons [of "clear_memory (spec_library reduce) self"] spec_clear_config [of reduce self]
    show ?thesis by simp
  qed
qed

lemma save_all_key:
  "memory_key (memory (save_all (spec_library reduce) self turns)) = memory_key (memory self)"
proof (induction turns arbitrary: self)
  case Nil
  show ?case by simp
next
  case (Cons t turns)
  obtain u a where t: "t = (u, a)" by (cases t)
  from Cons [of "save_conversation (spec_library reduce) self u a"] spec_save_config [of reduce self u a]
  show ?case by (simp add: t)
qed

lemma init_buffer:
  "lower s = ''buffer'' \<or> lower s = ''summary'' \<Longrightarrow>
   \<exists>m0. MemoryManager_init s ws tlim = Inr m0 \<and> cls (memory m0) = ConversationBufferMemory \<and>
        memory_key (memory m0) = ''chat_history''"
  by (auto simp: MemoryManager_init_def initialize_memory_def)

lemma init_window:
  "lower s = ''window'' \<Longrightarrow>
   \<exists>m0. MemoryManager_init s ws tlim = Inr m0 \<and>
        cls (memory m0) = ConversationBufferWindowMemory \<and> window_k (memory m0) = Some ws \<and>
        memory_key (memory m0) = ''chat_history'' \<and> history (memory m0) = []"
  by (simp add: MemoryManager_init_def initialize_memory_def)

lemma last_turns_covered:
  assumes "2 * nat k \<le> length ys"
  shows "last_turns k (xs @ ys) = last_turns k ys"
proof -
  have "length (xs @ ys) - 2 * nat k = length xs + (length ys - 2 * nat k)"
    using assms by simp
  then show ?thesis
    by (simp add: last_turns_def)
qed

text \<open>
  C8. The window counts turns, and a turn is two exchanges, one per role. With window size 1,
  after the two turns of \<open>memory_test.py\<close> the history holds the two exchanges of the second
  turn: its length is 2, not at most 1.
\<close>

theorem window_history_length_counterexample:
  "MemoryManager_init ''window'' 1 1000 =
     Inr \<lparr>memory_type = ''window'', window_size = 1, token_limit = 1000,
          memory = \<lparr>cls = ConversationBufferWindowMemory, window_k = Some 1,
             memory_key = ''chat_history'', return_messages = Some True, history = []\<rparr>\<rparr> \<and>
   (1::int) < int (length test_turns) \<and>
   get_chat_history (spec_library keep_all)
     (save_all (spec_library keep_all)
        \<lparr>memory_type = ''window'', window_size = 1, token_limit = 1000,
         memory = \<lparr>cls = ConversationBufferWindowMemory, window_k = Some 1,
            memory_key = ''chat_history'', return_messages = Some True, history = []\<rparr>\<rparr>
        test_turns)
     = [\<lparr>role = User, content = ''What is AI?''\<rparr>,
        \<lparr>role = Assistant, content = ''AI means Artificial Intelligence.''\<rparr>] \<and>
   \<not> int (length (get_chat_history (spec_library keep_all)
     (save_all (spec_library keep_all)
        \<lparr>memory_type = ''window'', window_size = 1, token_limit = 1000,
         memory = \<lparr>cls = ConversationBufferWindowMemory, window_k = Some 1,
            memory_key = ''chat_history'', return_messages = Some True, history = []\<rparr>\<rparr>
        test_turns))) \<le> 1"
  by (simp add: MemoryManager_init_def lower_window initialize_memory_def test_turns_def
      get_chat_history_def save_conversation_def spec_library_def spec_save_context_def
      spec_load_memory_variables_def single_value_def last_turns_def exchange_pair_def Let_def)

text \<open>
  C8, as amended. A windowed store of window size \<open>W\<close>, in any state, after \<open>N > W\<close> further
  turns are saved: the history consists of exactly the \<open>W\<close> most recent turns, in the order
  they were saved, which are \<open>2 * W\<close> exchanges.
\<close>

theorem window_keeps_last_turns:
  assumes "W < length turns"
      and "MemoryManager_init ''window'' (int W) tlim = Inr m0"
  shows "get_chat_history (spec_library reduce)
           (save_all (spec_library reduce) (run (spec_library reduce) m0 earlier) turns)
         = turn_exchanges (drop (length turns - W) turns) \<and>
         length (drop (length turns - W) turns) = W \<and>
         length (get_chat_history (spec_library reduce)
           (save_all (spec_library reduce) (run (spec_library reduce) m0 earlier) turns)) = 2 * W"
proof -
  let ?L = "spec_library reduce"
  let ?m = "run ?L m0 earlier"
  from init_window [of "''window''" "int W" tlim] assms(2) lower_window
  have c0: "cls (memory m0) = ConversationBufferWindowMemory"
    and k0: "window_k (memory m0) = Some (int W)"
    and key0: "memory_key (memory m0) = ''chat_history''"
    by auto
  from run_config [of reduce m0 earlier] c0 k0 key0
  have c: "cls (memory ?m) = ConversationBufferWindowMemory"
    and k: "window_k (memory ?m) = Some (int W)"
    and key: "memory_key (memory ?m) = ''chat_history''"
    by simp_all
  from assms(1) have ne: "turns \<noteq> []" and le: "W \<le> length turns"
    by auto
  have "history (memory (save_all ?L ?m turns))
        = last_turns (int W) (history (memory ?m) @ turn_exchanges turns)"
    using save_all_window [OF c k, of reduce turns] ne by simp
  also have "\<dots> = last_turns (int W) (turn_exchanges turns)"
    using le by (intro last_turns_covered) (simp add: length_turn_exchanges)
  also have "\<dots> = drop (2 * (length turns - W)) (turn_exchanges turns)"
    using le by (simp add: last_turns_def length_turn_exchanges diff_mult_distrib2)
  also have "\<dots> = turn_exchanges (drop (length turns - W) turns)"
    by (rule drop_turn_exchanges)
  finally have "get_chat_history ?L (save_all ?L ?m turns)
      = turn_exchanges (drop (length turns - W) turns)"
    using save_all_key [of reduce ?m turns] key
    by (simp add: get_chat_history_def spec_library_def spec_load_memory_variables_def)
  with le show ?thesis by (simp add: length_turn_exchanges)
qed

theorem window_keeps_last_turns_witness:
  "(1::nat) < length test_turns \<and>
   MemoryManager_init ''window'' (int 1) 1000 =
     Inr \<lparr>memory_type = ''window'', window_size = 1, token_limit = 1000,
          memory = \<lparr>cls = ConversationBufferWindowMemory, window_k = Some 1,
             memory_key = ''chat_history'', return_messages = Some True, history = []\<rparr>\<rparr> \<and>
   get_chat_history (spec_library keep_all)
     (save_all (spec_library keep_all)
        (run (spec_library keep_all)
           \<lparr>memory_type = ''window'', window_size = 1, token_limit = 1000,
            memory = \<lparr>cls = ConversationBufferWindowMemory, window_k = Some 1,
               memory_key = ''chat_history'', return_messages = Some True, history = []\<rparr>\<rparr> [])
        test_turns)
     = exchange_pair ''What is AI?'' ''AI means Artificial Intelligence.''"
proof -
  let ?m0 = "\<lparr>memory_type = ''window'', window_size = 1, token_limit = 1000,
          memory = \<lparr>cls = ConversationBufferWindowMemory, window_k = Some 1,
             memory_key = ''chat_history'', return_messages = Some True, history = []\<rparr>\<rparr>"
  have h: "(1::nat) < length test_turns"
    by (simp add: test_turns_def)
  have i: "MemoryManager_init ''window'' (int 1) 1000 = Inr ?m0"
    by (simp add: MemoryManager_init_def lower_window initialize_memory_def)
  have d: "turn_exchanges (drop (length test_turns - 1) test_turns)
           = exchange_pair ''What is AI?'' ''AI means Artificial Intelligence.''"
    by (simp add: test_turns_def turn_exchanges_def)
  from window_keeps_last_turns [OF h i, of keep_all "[]"] h i d show ?thesis
    by simp
qed

lemma save_then_history_general:
  assumes "memory_key (memory self) = ''chat_history''"
      and "cls (memory self) = ConversationBufferMemory \<or>
           (cls (memory self) = ConversationBufferWindowMemory \<and>
            (\<exists>k. window_k (memory self) = Some k \<and> 1 \<le> k))"
  shows "\<exists>earlier.
           get_chat_history (spec_library reduce)
             (save_conversation (spec_library reduce) self user_input bot_output)
           = earlier @ exchange_pair user_input bot_output"
  using assms(2)
proof
  assume "cls (memory self) = ConversationBufferMemory"
  then have "get_chat_history (spec_library reduce)
             (save_conversation (spec_library reduce) self user_input bot_output)
           = history (memory self) @ exchange_pair user_input bot_output"
    using assms(1)
    by (simp add: get_chat_history_def save_conversation_def spec_library_def
        spec_save_context_def spec_load_memory_variables_def single_value_def Let_def)
  then show ?thesis by blast
next
  assume "cls (memory self) = ConversationBufferWindowMemory \<and>
            (\<exists>k. window_k (memory self) = Some k \<and> 1 \<le> k)"
  then obtain k where c: "cls (memory self) = ConversationBufferWindowMemory"
    and k: "window_k (memory self) = Some k" "1 \<le> k" by blast
  have "get_chat_history (spec_library reduce)
             (save_conversation (spec_library reduce) self user_input bot_output)
           = last_turns k (history (memory self) @ exchange_pair user_input bot_output)"
    using assms(1) c k
    by (simp add: get_chat_history_def save_conversation_def spec_library_def
        spec_save_context_def spec_load_memory_variables_def single_value_def Let_def)
  then show ?thesis
    using last_turns_append_pair [OF k(2)] by simp
qed

text \<open>
  C6. In every state of a store built with the full buffer (\<open>buffer\<close>, and \<open>summary\<close>, which
  is the same), or with a window of at least one turn, \<open>save_conversation\<close> followed by
  \<open>get_chat_history\<close> returns a sequence that ends with the new exchange pair: the user's
  message, then the assistant's.
\<close>

theorem save_then_history_ends_with_exchange:
  assumes "MemoryManager_init s ws tlim = Inr m0"
      and "lower s = ''buffer'' \<or> lower s = ''summary'' \<or> (lower s = ''window'' \<and> 1 \<le> ws)"
  shows "\<exists>earlier.
           get_chat_history (spec_library reduce)
             (save_conversation (spec_library reduce)
                (run (spec_library reduce) m0 cs) user_input bot_output)
           = earlier @ exchange_pair user_input bot_output"
proof -
  let ?m = "run (spec_library reduce) m0 cs"
  from assms init_buffer [of s ws tlim] init_window [of s ws tlim]
  have "memory_key (memory m0) = ''chat_history'' \<and>
        (cls (memory m0) = ConversationBufferMemory \<or>
           (cls (memory m0) = ConversationBufferWindowMemory \<and>
            (\<exists>k. window_k (memory m0) = Some k \<and> 1 \<le> k)))"
    by auto
  with run_config [of reduce m0 cs]
  have "memory_key (memory ?m) = ''chat_history''"
    and "cls (memory ?m) = ConversationBufferMemory \<or>
           (cls (memory ?m) = ConversationBufferWindowMemory \<and>
            (\<exists>k. window_k (memory ?m) = Some k \<and> 1 \<le> k))"
    by simp_all
  then show ?thesis
    by (rule save_then_history_general)
qed

theorem save_then_history_ends_with_exchange_witness:
  "MemoryManager_init ''Window'' 3 1000 =
     Inr \<lparr>memory_type = ''window'', window_size = 3, token_limit = 1000,
          memory = \<lparr>cls = ConversationBufferWindowMemory, window_k = Some 3,
             memory_key = ''chat_history'', return_messages = Some True, history = []\<rparr>\<rparr> \<and>
   (lower ''Window'' = ''buffer'' \<or> lower ''Window'' = ''summary'' \<or>
    (lower ''Window'' = ''window'' \<and> (1::int) \<le> 3)) \<and>
   (\<exists>earlier.
      get_chat_history (spec_library keep_all)
        (save_conversation (spec_library keep_all)
           (run (spec_library keep_all)
              \<lparr>memory_type = ''window'', window_size = 3, token_limit = 1000,
               memory = \<lparr>cls = ConversationBufferWindowMemory, window_k = Some 3,
                  memory_key = ''chat_history'', return_messages = Some True, history = []\<rparr>\<rparr>
              [Save ''Hello'' ''Hi there!''])
           ''What is AI?'' ''AI means Artificial Intelligence.'')
      = earlier @ exchange_pair ''What is AI?'' ''AI means Artificial Intelligence.'')"
proof -
  let ?m0 = "\<lparr>memory_type = ''window'', window_size = 3, token_limit = 1000,
      memory = \<lparr>cls = ConversationBufferWindowMemory, window_k = Some 3,
             memory_key = ''chat_history'', return_messages = Some True, history = []\<rparr>\<rparr>"
  have l: "lower ''Window'' = ''window''"
    by code_simp
  have i: "MemoryManager_init ''Window'' 3 1000 = Inr ?m0"
    by (simp add: MemoryManager_init_def l initialize_memory_def)
  have h: "lower ''Window'' = ''buffer'' \<or> lower ''Window'' = ''summary'' \<or>
    (lower ''Window'' = ''window'' \<and> (1::int) \<le> 3)"
    by (simp add: l)
  from save_then_history_ends_with_exchange [OF i h, of keep_all "[Save ''Hello'' ''Hi there!'']"
      "''What is AI?''" "''AI means Artificial Intelligence.''"] i h
  show ?thesis
    by (intro conjI)
qed

section \<open>Retrieval and the main flow\<close>

lemma lstrip_Nil: "lstrip seqs [] = []"
proof -
  have "find (\<lambda>w. w \<noteq> [] \<and> take (length w) [] = w) seqs = None"
    by (auto simp: find_None_iff)
  then show ?thesis
    by (subst lstrip.simps) simp
qed

lemma find_whitespace_all:
  "list_all (\<lambda>w. find (\<lambda>v. v \<noteq> [] \<and> take (length v) (w @ r) = v) whitespace = Some w)
     whitespace"
  unfolding whitespace_def by simp

lemma lstrip_whitespace:
  assumes "w \<in> set whitespace"
  shows "lstrip whitespace (w @ r) = lstrip whitespace r"
proof -
  have "find (\<lambda>v. v \<noteq> [] \<and> take (length v) (w @ r) = v) whitespace = Some w"
    using assms find_whitespace_all [of r] by (simp add: list_all_iff)
  then show ?thesis
    by (subst lstrip.simps) simp
qed

lemma lstrip_concat: "whitespace_only ws \<Longrightarrow> lstrip whitespace (concat ws) = []"
  by (induction ws) (simp_all add: whitespace_only_def lstrip_Nil lstrip_whitespace)

lemma strip_whitespace_only: "whitespace_only ws \<Longrightarrow> strip (concat ws) = []"
  by (simp add: strip_def lstrip_concat lstrip_Nil)

text \<open>
  C3. A query that is empty or consists of white-space characters only, those of Unicode
  included, disables the Send button, and the main flow calls no collaborator and leaves the
  messages unchanged, whatever \<open>send_clicked\<close> is.
\<close>

theorem blank_query_is_noop:
  assumes "whitespace_only ws"
  shows "send_disabled (concat ws) \<and>
         main_flow w emb send_clicked (concat ws) messages = ([], messages)"
  using strip_whitespace_only [OF assms] by (simp add: send_disabled_def main_flow_def)

theorem blank_query_is_noop_witness:
  "whitespace_only [[CHR 0x20], [CHR 0xC2, CHR 0xA0], [CHR 0xE3, CHR 0x80, CHR 0x80], [CHR 0x09]] \<and>
   send_disabled [CHR 0x20, CHR 0xC2, CHR 0xA0, CHR 0xE3, CHR 0x80, CHR 0x80, CHR 0x09] \<and>
   main_flow down_world zero_embedder True
     [CHR 0x20, CHR 0xC2, CHR 0xA0, CHR 0xE3, CHR 0x80, CHR 0x80, CHR 0x09]
     [message ''user'' (JStr ''Hello'')] = ([], [message ''user'' (JStr ''Hello'')])"
proof -
  have h: "whitespace_only
      [[CHR 0x20], [CHR 0xC2, CHR 0xA0], [CHR 0xE3, CHR 0x80, CHR 0x80], [CHR 0x09]]"
    by (simp add: whitespace_only_def whitespace_def)
  from blank_query_is_noop [OF h, of down_world zero_embedder True
      "[message ''user'' (JStr ''Hello'')]"] h
  show ?thesis by simp
qed

text \<open>
  C9. \<open>retrieve\<close> embeds the query and issues one search request, whose JSON body is
  \<open>{size: top_k, query: {knn: {embedding: {vector: <embedding>, k: top_k}}}}\<close>; its result is
  \<open>hits.hits\<close> of the response, or the exception raised on the way.
\<close>

theorem retrieve_request_and_parse:
  "\<exists>req. fst (retrieve w self query top_k) = [Encode query, RequestsGet req] \<and>
         url req = opensearch_url self @ ''/'' @ index_name self @ ''/_search'' \<and>
         json req = spec_search_body top_k (embedder self query) \<and>
         snd (retrieve w self query top_k) =
           (case requests_get w req of Inl e \<Rightarrow> Inl e | Inr response \<Rightarrow> hits_of response)"
  by (simp add: retrieve_def embed_text_def spec_search_body_def hits_of_def Let_def
      split: sum.splits)

lemma retrieve_trace:
  "fst (retrieve w self query top_k) =
     [Encode query,
      RequestsGet \<lparr>url = opensearch_url self @ ''/'' @ index_name self @ ''/_search'',
                   json = spec_search_body top_k (embedder self query),
                   auth = (''admin'', ''admin'')\<rparr>]"
  by (simp add: retrieve_def embed_text_def spec_search_body_def Let_def)

text \<open>
  C4. For a query that is not blank, when \<open>retrieve\<close> raises \<open>e\<close> the main flow calls the
  model not at all, ends normally, and appends the user's message followed by an assistant
  message whose content is \<open>Error: \<close> and the text of \<open>e\<close>.
\<close>

theorem retriever_error_is_recorded:
  assumes "strip user_text \<noteq> []"
      and "snd (retrieve w (retriever emb) (strip user_text) 3) = Inl e"
  shows "main_flow w emb True user_text messages =
           (fst (retrieve w (retriever emb) (strip user_text) 3),
            messages @ [message ''user'' (JStr (strip user_text)),
                        message ''assistant'' (JStr (''Error: '' @ str_exn e))]) \<and>
         filter is_InvokeModel (fst (main_flow w emb True user_text messages)) = []"
proof -
  obtain t where r: "retrieve w (retriever emb) (strip user_text) 3 = (t, Inl e)"
    using assms(2) by (cases "retrieve w (retriever emb) (strip user_text) 3") simp
  have t: "filter is_InvokeModel t = []"
    using retrieve_trace [of w "retriever emb" "strip user_text" 3] r by simp
  have "main_flow w emb True user_text messages =
          (t, messages @ [message ''user'' (JStr (strip user_text)),
                          message ''assistant'' (JStr (''Error: '' @ str_exn e))])"
    using assms(1) r by (simp add: main_flow_def try_block_def Let_def)
  with r t show ?thesis by simp
qed

theorem retriever_error_is_recorded_witness:
  "strip '' What is AI? '' \<noteq> [] \<and>
   snd (retrieve down_world (retriever zero_embedder) (strip '' What is AI? '') 3)
     = Inl (Exception ''Connection refused'') \<and>
   snd (main_flow down_world zero_embedder True '' What is AI? '' []) =
     [message ''user'' (JStr ''What is AI?''),
      message ''assistant'' (JStr ''Error: Connection refused'')] \<and>
   filter is_InvokeModel (fst (main_flow down_world zero_embedder True '' What is AI? '' [])) = []"
proof -
  have s: "strip '' What is AI? '' = ''What is AI?''"
    by (simp add: strip_def lstrip.simps whitespace_def)
  have h1: "strip '' What is AI? '' \<noteq> []"
    by (simp add: s)
  have h2: "snd (retrieve down_world (retriever zero_embedder) (strip '' What is AI? '') 3)
     = Inl (Exception ''Connection refused'')"
    by (simp add: retrieve_def embed_text_def down_world_def refusing_def Let_def)
  note c = retriever_error_is_recorded [OF h1 h2, of "[]"]
  from c have m: "snd (main_flow down_world zero_embedder True '' What is AI? '' []) =
     [message ''user'' (JStr ''What is AI?''),
      message ''assistant'' (JStr ''Error: Connection refused'')]"
    by (simp add: s)
  from c have f: "filter is_InvokeModel
      (fst (main_flow down_world zero_embedder True '' What is AI? '' [])) = []"
    by (rule conjunct2)
  from h1 h2 m f show ?thesis
    by (intro conjI)
qed

lemma retrieve_result:
  assumes "RequestsGet req \<in> set (fst (retrieve w self query top_k))"
  shows "snd (retrieve w self query top_k) =
           (case requests_get w req of Inl e \<Rightarrow> Inl e | Inr response \<Rightarrow> hits_of response)"
  using assms
  by (simp add: retrieve_def embed_text_def hits_of_def Let_def split: sum.splits)

lemma retrieve_request_size:
  assumes "RequestsGet req \<in> set (fst (retrieve w self query top_k))"
  shows "getitem (json req) ''size'' = Inr (JInt top_k)"
  using assms by (auto simp: retrieve_def embed_text_def Let_def)

lemma is_retrieval_result_take:
  assumes "is_retrieval_result m (JList ranked)" and "0 \<le> n"
  shows "is_retrieval_result n (JList (take (nat n) ranked))"
proof -
  have "set (take (nat n) ranked) \<subseteq> set ranked"
    by (rule set_take_subset)
  moreover have "int (length (take (nat n) ranked)) \<le> n"
    using assms(2) by simp
  ultimately show ?thesis
    using assms(1) by (auto simp: is_retrieval_result_def list_all_iff intro: sorted_wrt_take)
qed

lemma knn_service_honours:
  assumes "is_retrieval_result m (JList ranked)"
      and "knn_service ranked req = Inr response"
  shows "honours req response"
proof -
  from assms(2) obtain n where n: "getitem (json req) ''size'' = Inr (JInt n)" "0 \<le> n"
    and r: "response = JDict [(''hits'', JDict [(''hits'', JList (take (nat n) ranked))])]"
    by (auto simp: knn_service_def split: sum.splits jvalue.splits if_splits)
  from is_retrieval_result_take [OF assms(1) n(2)] show ?thesis
    by (simp add: honours_def n(1) r hits_of_def)
qed

text \<open>
  C5. \<open>retrieve\<close> asks the search service for \<open>top_k\<close> neighbours and returns \<open>hits.hits\<close>
  of the response as it is. So whenever the service answers and keeps its contract for the
  request it was sent, \<open>retrieve\<close> returns a sequence of at most \<open>top_k\<close> documents in
  descending order of score; the bound and the order are the service's.
\<close>

theorem retrieve_returns_retrieval_result:
  assumes "RequestsGet req \<in> set (fst (retrieve w self query top_k))"
      and "requests_get w req = Inr response"
      and "honours req response"
  shows "\<exists>v. snd (retrieve w self query top_k) = Inr v \<and> is_retrieval_result top_k v"
proof -
  have sz: "getitem (json req) ''size'' = Inr (JInt top_k)"
    using assms(1) by (rule retrieve_request_size)
  from assms(3) obtain hits where h: "hits_of response = Inr hits"
    and r: "is_retrieval_result top_k hits"
    by (auto simp: honours_def sz split: sum.splits)
  from retrieve_result [OF assms(1)] assms(2) h
  have "snd (retrieve w self query top_k) = Inr hits" by simp
  with r show ?thesis by blast
qed

theorem retrieve_returns_retrieval_result_witness:
  "RequestsGet \<lparr>url = ''http://localhost:9200/rag-index/_search'',
                json = spec_search_body 1 [0, 0], auth = (''admin'', ''admin'')\<rparr>
     \<in> set (fst (retrieve honest_world (retriever zero_embedder) ''What is AI?'' 1)) \<and>
   requests_get honest_world
     \<lparr>url = ''http://localhost:9200/rag-index/_search'',
      json = spec_search_body 1 [0, 0], auth = (''admin'', ''admin'')\<rparr>
     = Inr (JDict [(''hits'', JDict [(''hits'', JList [hit ''d2'' 2 ''ML is...''])])]) \<and>
   honours \<lparr>url = ''http://localhost:9200/rag-index/_search'',
            json = spec_search_body 1 [0, 0], auth = (''admin'', ''admin'')\<rparr>
     (JDict [(''hits'', JDict [(''hits'', JList [hit ''d2'' 2 ''ML is...''])])]) \<and>
   snd (retrieve honest_world (retriever zero_embedder) ''What is AI?'' 1)
     = Inr (JList [hit ''d2'' 2 ''ML is...'']) \<and>
   is_retrieval_result 1 (JList [hit ''d2'' 2 ''ML is...''])"
proof -
  let ?req = "\<lparr>url = ''http://localhost:9200/rag-index/_search'',
                json = spec_search_body 1 [0, 0], auth = (''admin'', ''admin'')\<rparr>"
  let ?docs = "JList [hit ''d2'' 2 ''ML is...'']"
  let ?response = "JDict [(''hits'', JDict [(''hits'', ?docs)])]"
  have h1: "RequestsGet ?req
     \<in> set (fst (retrieve honest_world (retriever zero_embedder) ''What is AI?'' 1))"
    by (simp add: retrieve_def embed_text_def retriever_def zero_embedder_def
        OPENSEARCH_URL_def INDEX_NAME_def spec_search_body_def Let_def)
  have h2: "requests_get honest_world ?req = Inr ?response"
    by (simp add: honest_world_def knn_service_def ranked_hits_def spec_search_body_def)
  have h3: "honours ?req ?response"
    by (simp add: honours_def spec_search_body_def hits_of_def is_retrieval_result_def
        relevance_score_def hit_def)
  have v: "snd (retrieve honest_world (retriever zero_embedder) ''What is AI?'' 1) = Inr ?docs"
    using retrieve_result [OF h1] h2 by (simp add: hits_of_def)
  from retrieve_returns_retrieval_result [OF h1 h2 h3] v have "is_retrieval_result 1 ?docs"
    by simp
  with h1 h2 h3 v show ?thesis
    by (intro conjI)
qed

end
